theory Spec2Isabelle
  imports Main
begin

section \<open>The Magic binding of ext/magic/ruby-magic.c\<close>

text \<open>
  The file is one translation unit of glue between the interpreter and the native
  file-identification library. The model follows it function by function. What lies
  outside the file is kept outside the model too:
  \<^item> the native library and the C library answer through the fields of the record
    \<open>ext\<close>; every operation of the file makes each library call at most once, so a
    function of the call's arguments gives every answer the library can give;
  \<^item> the interpreter's exceptions are values: an operation returns \<open>Inl\<close> of the
    exception it raises or \<open>Inr\<close> of the value it returns;
  \<^item> the object's instance variables, the pointer of its data wrapper and the log
    of what was done to the library and to the mutex form the record \<open>state\<close>.
\<close>

subsection \<open>Values of the interpreter\<close>

datatype VALUE =
    Qnil
  | Qtrue
  | Qfalse
  | Fixnum int
  | RString string
  | RArray "VALUE list"
  | RObject

datatype ruby_type = T_NIL | T_TRUE | T_FALSE | T_FIXNUM | T_STRING | T_ARRAY | T_DATA

fun rb_type :: "VALUE \<Rightarrow> ruby_type" where
  "rb_type Qnil = T_NIL"
| "rb_type Qtrue = T_TRUE"
| "rb_type Qfalse = T_FALSE"
| "rb_type (Fixnum n) = T_FIXNUM"
| "rb_type (RString s) = T_STRING"
| "rb_type (RArray xs) = T_ARRAY"
| "rb_type RObject = T_DATA"

definition NIL_P :: "VALUE \<Rightarrow> bool" where
  "NIL_P v = (v = Qnil)"

definition RTEST :: "VALUE \<Rightarrow> bool" where
  "RTEST v = (v \<noteq> Qnil \<and> v \<noteq> Qfalse)"

text \<open>\<open>const char *\<close>: \<open>None\<close> is the null pointer. \<open>magic_t\<close>, the cookie, is a
  pointer to the library's own structure: \<open>None\<close> is null, \<open>Some a\<close> the address.\<close>

type_synonym cstring = "string option"
type_synonym magic_t = "nat option"

subsection \<open>Exceptions\<close>

text \<open>The classes \<open>Init_magic\<close> defines under \<open>Magic\<close>.\<close>

datatype klass =
    rb_mgc_eError
  | rb_mgc_eMagicError
  | rb_mgc_eBadAddressError
  | rb_mgc_eFlagsError
  | rb_mgc_eNotImplementedError

text \<open>
  An exception of one of these classes carries the attribute \<open>@errno\<close> and a message.
  The others are raised by the interpreter itself: \<open>TypeError\<close> by \<open>Check_Type\<close> and the
  conversions, \<open>RangeError\<close> by \<open>NUM2INT\<close>, \<open>ThreadError\<close> and \<open>NoMethodError\<close> by the
  calls on the mutex, \<open>NoMemError\<close> by \<open>rb_memerror\<close>, \<open>Interpreter_error\<close> by the
  interpreter's \<open>Array#join\<close>. \<open>Assertion_failed\<close> stands for the abort of a failed \<open>assert\<close>.
\<close>

datatype exn =
    Magic_exception klass int string
  | TypeError
  | RangeError
  | ThreadError
  | NoMethodError
  | NoMemError
  | Interpreter_error
  | Assertion_failed

text \<open>\<open>struct magic_exception\<close>.\<close>

record magic_exception_t =
  e_magic_errno :: int
  e_magic_error :: string
  e_klass :: klass

text \<open>\<open>struct magic_arguments\<close>: the cookie, the union of a path and a descriptor,
  and the flags.\<close>

record magic_arguments_t =
  ma_cookie :: magic_t
  ma_file_path :: cstring
  ma_file_fd :: int
  ma_flags :: int

datatype error_code = E_UNKNOWN | E_NOT_IMPLEMENTED | E_INVALID_ARGUMENT

subsection \<open>The log and the state\<close>

text \<open>Each call into the library is logged with its arguments and its answer;
  so are the calls on the mutex and the warning of \<open>rb_mgc_initialize\<close>.\<close>

datatype native =
    Magic_open int magic_t
  | Magic_close magic_t
  | Magic_load magic_t cstring int int
  | Magic_check magic_t cstring int int
  | Magic_compile magic_t cstring int int
  | Magic_file magic_t cstring cstring
  | Magic_buffer magic_t cstring nat cstring
  | Magic_descriptor magic_t int cstring
  | Magic_setflags magic_t int int int
  | Magic_version int int
  | Magic_getpath string
  | Magic_error magic_t cstring
  | Magic_errno magic_t int

datatype event = Lock | Unlock | Warn | Native native

text \<open>
  \<open>DATA_PTR\<close> is the pointer held by the data wrapper of the object, \<open>at_flags\<close> and
  \<open>at_path\<close> are the instance variables \<open>@flags\<close> and \<open>@path\<close>. \<open>at_mutex\<close> is \<open>@mutex\<close>:
  \<open>None\<close> while the variable is unset, \<open>Some True\<close> while the mutex is locked.
\<close>

record state =
  DATA_PTR :: magic_t
  at_flags :: VALUE
  at_path :: VALUE
  at_mutex :: "bool option"
  events :: "event list"

subsection \<open>What the file takes from outside\<close>

text \<open>
  The library (\<open>magic_open\<close> to \<open>magic_errno\<close>), the repository's wrappers around it
  (\<open>magic_load_wrapper\<close>, \<open>magic_check_wrapper\<close>, \<open>magic_compile_wrapper\<close>,
  \<open>magic_setflags_wrapper\<close>, \<open>magic_version_wrapper\<close>, \<open>magic_getpath_wrapper\<close>), which are
  not in this file, \<open>getenv("MAGIC")\<close>, the header's table of messages \<open>error\<close>, the
  interpreter's \<open>Array#join\<close> behind the header's \<open>magic_join\<close>, the exception the
  header's \<open>CHECK_MAGIC_OPEN\<close> builds, and the contents of an uninitialised
  \<open>magic_arguments_t\<close> on the stack. \<open>magic_setflags_wrapper\<close> and
  \<open>magic_version_wrapper\<close> answer with their return value and with the \<open>errno\<close> read
  right after the call; \<open>magic_getpath_wrapper\<close> answers with a string, the library
  having a default search path at all times.
\<close>

record ext =
  lib_magic_open :: "int \<Rightarrow> magic_t"
  lib_magic_load_wrapper :: "magic_t \<Rightarrow> cstring \<Rightarrow> int \<Rightarrow> int"
  lib_magic_check_wrapper :: "magic_t \<Rightarrow> cstring \<Rightarrow> int \<Rightarrow> int"
  lib_magic_compile_wrapper :: "magic_t \<Rightarrow> cstring \<Rightarrow> int \<Rightarrow> int"
  lib_magic_file :: "magic_t \<Rightarrow> cstring \<Rightarrow> cstring"
  lib_magic_buffer :: "magic_t \<Rightarrow> cstring \<Rightarrow> nat \<Rightarrow> cstring"
  lib_magic_descriptor :: "magic_t \<Rightarrow> int \<Rightarrow> cstring"
  lib_magic_setflags_wrapper :: "magic_t \<Rightarrow> int \<Rightarrow> int \<times> int"
  lib_magic_version_wrapper :: "int \<times> int"
  lib_magic_getpath_wrapper :: string
  lib_magic_error :: "magic_t \<Rightarrow> cstring"
  lib_magic_errno :: "magic_t \<Rightarrow> int"
  lib_getenv_MAGIC :: cstring
  error :: "error_code \<Rightarrow> string"
  lib_array_join :: "VALUE list \<Rightarrow> string \<Rightarrow> exn + string"
  closed_exception :: magic_exception_t
  indeterminate :: magic_arguments_t

text \<open>\<open>errno.h\<close> (the values of Linux) and \<open>magic.h\<close>; the bounds of a C \<open>int\<close>.\<close>

definition ENOSYS :: int where "ENOSYS = 38"
definition EINVAL :: int where "EINVAL = 22"
definition MAGIC_NONE :: int where "MAGIC_NONE = 0"
definition INT_MIN :: int where "INT_MIN = - 2147483648"
definition INT_MAX :: int where "INT_MAX = 2147483647"

subsection \<open>Computations that change the state and may raise\<close>

type_synonym 'a M = "state \<Rightarrow> (exn + 'a) \<times> state"

definition ret :: "'a \<Rightarrow> 'a M" where
  "ret v s = (Inr v, s)"

definition rb_exc_raise :: "exn \<Rightarrow> 'a M" where
  "rb_exc_raise e s = (Inl e, s)"

definition andthen :: "'a M \<Rightarrow> ('a \<Rightarrow> 'b M) \<Rightarrow> 'b M" where
  "andthen m f s = (case m s of (Inl e, s') \<Rightarrow> (Inl e, s') | (Inr v, s') \<Rightarrow> f v s')"

definition log :: "event \<Rightarrow> unit M" where
  "log ev s = (Inr (), s\<lparr>events := events s @ [ev]\<rparr>)"

text \<open>\<open>rb_ensure(b, e)\<close> of the interpreter: \<open>e\<close> runs when \<open>b\<close> has returned and when
  \<open>b\<close> has raised; then the value of \<open>b\<close> is returned or its exception raised again,
  unless \<open>e\<close> itself raised.\<close>

definition rb_ensure :: "'a M \<Rightarrow> VALUE M \<Rightarrow> 'a M" where
  "rb_ensure b e s =
     (case b s of (r, s1) \<Rightarrow>
        (case e s1 of (Inl x, s2) \<Rightarrow> (Inl x, s2) | (Inr u, s2) \<Rightarrow> (r, s2)))"

definition gets :: "(state \<Rightarrow> 'a) \<Rightarrow> 'a M" where
  "gets f s = (Inr (f s), s)"

text \<open>A check or a conversion of the interpreter reads its argument only: it gives
  a value or an exception, and \<open>lift\<close> puts it among the computations.\<close>

definition lift :: "exn + 'a \<Rightarrow> 'a M" where
  "lift r s = (r, s)"

subsection \<open>Macros and calls of the interpreter\<close>

definition Check_Type :: "VALUE \<Rightarrow> ruby_type \<Rightarrow> exn + unit" where
  "Check_Type v t = (if rb_type v = t then Inr () else Inl TypeError)"

text \<open>\<open>NUM2INT\<close> raises \<open>RangeError\<close> on an integer that does not fit a C \<open>int\<close>.\<close>

definition NUM2INT :: "VALUE \<Rightarrow> exn + int" where
  "NUM2INT v =
     (case v of
        Fixnum n \<Rightarrow> if INT_MIN \<le> n \<and> n \<le> INT_MAX then Inr n else Inl RangeError
      | _ \<Rightarrow> Inl TypeError)"

definition INT2NUM :: "int \<Rightarrow> VALUE" where
  "INT2NUM n = Fixnum n"

text \<open>The object is an instance of \<open>Magic\<close>, made by \<open>magic_allocate\<close> with
  \<open>Data_Wrap_Struct\<close>: it is always of type \<open>T_DATA\<close>.\<close>

definition DATA_P :: "state \<Rightarrow> bool" where
  "DATA_P s = True"

datatype ID = id_at_flags | id_at_path

fun rb_ivar_get :: "ID \<Rightarrow> VALUE M" where
  "rb_ivar_get id_at_flags = gets at_flags"
| "rb_ivar_get id_at_path = gets at_path"

fun rb_ivar_set :: "ID \<Rightarrow> VALUE \<Rightarrow> VALUE M" where
  "rb_ivar_set id_at_flags v = (\<lambda>s. (Inr v, s\<lparr>at_flags := v\<rparr>))"
| "rb_ivar_set id_at_path v = (\<lambda>s. (Inr v, s\<lparr>at_path := v\<rparr>))"

text \<open>
  \<open>Mutex#lock\<close> and \<open>Mutex#unlock\<close>, called through \<open>rb_funcall\<close>. There is one thread
  in the model: locking a locked mutex raises \<open>ThreadError\<close> (recursive locking), so
  does unlocking one that is not locked; a call on the unset variable finds no
  method.
\<close>

definition mutex_lock :: "unit M" where
  "mutex_lock s =
     (case at_mutex s of
        None \<Rightarrow> (Inl NoMethodError, s)
      | Some True \<Rightarrow> (Inl ThreadError, s)
      | Some False \<Rightarrow> (Inr (), s\<lparr>at_mutex := Some True, events := events s @ [Lock]\<rparr>))"

definition mutex_unlock :: "unit M" where
  "mutex_unlock s =
     (case at_mutex s of
        None \<Rightarrow> (Inl NoMethodError, s)
      | Some False \<Rightarrow> (Inl ThreadError, s)
      | Some True \<Rightarrow> (Inr (), s\<lparr>at_mutex := Some False, events := events s @ [Unlock]\<rparr>))"

subsection \<open>Macros of the header\<close>

text \<open>
  The header \<open>ruby-magic.h\<close> is not among the sources, and with it the macros
  \<open>MAGIC_COOKIE\<close>, \<open>CSTR2RVAL\<close>, \<open>RVAL2CSTR\<close>, \<open>RARRAY_EMPTY_P\<close>, \<open>magic_split\<close>,
  \<open>magic_join\<close>, \<open>NOGVL\<close>, \<open>MAGIC_SYNCHRONIZED\<close>, \<open>MAGIC_GENERIC_ERROR\<close>,
  \<open>MAGIC_LIBRARY_ERROR\<close> and \<open>CHECK_MAGIC_OPEN\<close>. Each is given here as the spec and
  its use in the file have it.
\<close>

text \<open>Modelled from the spec: \<open>MAGIC_COOKIE\<close>, a macro of the missing header. The
  cookie is wrapped in the object: the macro reads the pointer of the wrapper.\<close>

definition MAGIC_COOKIE :: "magic_t M" where
  "MAGIC_COOKIE = gets DATA_PTR"

text \<open>Modelled from the spec: \<open>CSTR2RVAL\<close> and \<open>RVAL2CSTR\<close>, macros of the missing
  header, marshal a string of C to one of the interpreter and back; the null pointer
  goes with nil.\<close>

definition CSTR2RVAL :: "cstring \<Rightarrow> VALUE" where
  "CSTR2RVAL c = (case c of None \<Rightarrow> Qnil | Some s \<Rightarrow> RString s)"

definition RVAL2CSTR :: "VALUE \<Rightarrow> exn + cstring" where
  "RVAL2CSTR v =
     (case v of Qnil \<Rightarrow> Inr None | RString s \<Rightarrow> Inr (Some s) | _ \<Rightarrow> Inl TypeError)"

text \<open>\<open>RSTRING_LEN\<close> of the interpreter, which the file applies to a string only,
  after \<open>Check_Type\<close>.\<close>

definition RSTRING_LEN :: "VALUE \<Rightarrow> nat" where
  "RSTRING_LEN v = (case v of RString s \<Rightarrow> length s | _ \<Rightarrow> 0)"

text \<open>Modelled from the spec: \<open>RARRAY_EMPTY_P\<close>, a macro of the missing header, says
  whether an array has no element. The file applies it to arrays only: to the array
  of the arguments of a method, and to \<open>@path\<close> once it is known not to be nil.\<close>

definition RARRAY_EMPTY_P :: "VALUE \<Rightarrow> bool" where
  "RARRAY_EMPTY_P v = (case v of RArray xs \<Rightarrow> xs = [] | _ \<Rightarrow> False)"

text \<open>The fields of a string between the occurrences of the separator.\<close>

fun fields :: "char \<Rightarrow> string \<Rightarrow> string list" where
  "fields c [] = [[]]"
| "fields c (x # xs) =
     (if x = c then [] # fields c xs
      else (case fields c xs of [] \<Rightarrow> [[x]] | f # fs \<Rightarrow> (x # f) # fs))"

text \<open>\<open>String#split\<close> with a separator of one character: the fields, without the
  empty fields at the end.\<close>

definition rb_str_split :: "string \<Rightarrow> char \<Rightarrow> string list" where
  "rb_str_split s c = rev (dropWhile (\<lambda>f. f = []) (rev (fields c s)))"

text \<open>Modelled from the spec: \<open>magic_split\<close>, a macro of the missing header, splits
  the search path on the separator. The file passes no separator but \<open>":"\<close>; a
  receiver that is no string has no such method.\<close>

definition magic_split :: "VALUE \<Rightarrow> VALUE \<Rightarrow> exn + VALUE" where
  "magic_split a b =
     (case a of
        RString s \<Rightarrow>
          (case b of
             RString [c] \<Rightarrow> Inr (RArray (map RString (rb_str_split s c)))
           | _ \<Rightarrow> Inl TypeError)
      | _ \<Rightarrow> Inl NoMethodError)"

text \<open>Modelled from the spec: \<open>magic_join\<close>, a macro of the missing header, joins
  the arguments with the separator; the interpreter's \<open>Array#join\<close>, which turns each
  element into a string and may raise, is taken from \<open>ext\<close>.\<close>

definition magic_join :: "ext \<Rightarrow> VALUE \<Rightarrow> VALUE \<Rightarrow> exn + VALUE" where
  "magic_join x a b =
     (case a of
        RArray xs \<Rightarrow>
          (case b of
             RString sep \<Rightarrow>
               (case lib_array_join x xs sep of
                  Inl e \<Rightarrow> Inl e
                | Inr s \<Rightarrow> Inr (RString s))
           | _ \<Rightarrow> Inl TypeError)
      | _ \<Rightarrow> Inl NoMethodError)"

text \<open>Modelled from the spec: \<open>NOGVL\<close>, a macro of the missing header, runs the
  function outside the global lock of the interpreter, which the model does not
  have.\<close>

definition NOGVL :: "('d \<Rightarrow> 'a M) \<Rightarrow> 'd \<Rightarrow> 'a M" where
  "NOGVL f d = f d"

subsection \<open>Calls into the library\<close>

text \<open>Each call takes its answer from \<open>ext\<close> and appends itself to the log.\<close>

definition magic_open :: "ext \<Rightarrow> int \<Rightarrow> magic_t M" where
  "magic_open x f =
     (let c = lib_magic_open x f
      in andthen (log (Native (Magic_open f c))) (\<lambda>u. ret c))"

definition magic_close :: "magic_t \<Rightarrow> unit M" where
  "magic_close c = log (Native (Magic_close c))"

definition magic_load_wrapper :: "ext \<Rightarrow> magic_t \<Rightarrow> cstring \<Rightarrow> int \<Rightarrow> int M" where
  "magic_load_wrapper x c p f =
     (let rv = lib_magic_load_wrapper x c p f
      in andthen (log (Native (Magic_load c p f rv))) (\<lambda>u. ret rv))"

definition magic_check_wrapper :: "ext \<Rightarrow> magic_t \<Rightarrow> cstring \<Rightarrow> int \<Rightarrow> int M" where
  "magic_check_wrapper x c p f =
     (let rv = lib_magic_check_wrapper x c p f
      in andthen (log (Native (Magic_check c p f rv))) (\<lambda>u. ret rv))"

definition magic_compile_wrapper :: "ext \<Rightarrow> magic_t \<Rightarrow> cstring \<Rightarrow> int \<Rightarrow> int M" where
  "magic_compile_wrapper x c p f =
     (let rv = lib_magic_compile_wrapper x c p f
      in andthen (log (Native (Magic_compile c p f rv))) (\<lambda>u. ret rv))"

definition magic_file :: "ext \<Rightarrow> magic_t \<Rightarrow> cstring \<Rightarrow> cstring M" where
  "magic_file x c p =
     (let r = lib_magic_file x c p
      in andthen (log (Native (Magic_file c p r))) (\<lambda>u. ret r))"

definition magic_buffer :: "ext \<Rightarrow> magic_t \<Rightarrow> cstring \<Rightarrow> nat \<Rightarrow> cstring M" where
  "magic_buffer x c b n =
     (let r = lib_magic_buffer x c b n
      in andthen (log (Native (Magic_buffer c b n r))) (\<lambda>u. ret r))"

definition magic_descriptor :: "ext \<Rightarrow> magic_t \<Rightarrow> int \<Rightarrow> cstring M" where
  "magic_descriptor x c fd =
     (let r = lib_magic_descriptor x c fd
      in andthen (log (Native (Magic_descriptor c fd r))) (\<lambda>u. ret r))"

definition magic_setflags_wrapper :: "ext \<Rightarrow> magic_t \<Rightarrow> int \<Rightarrow> (int \<times> int) M" where
  "magic_setflags_wrapper x c f =
     (let r = lib_magic_setflags_wrapper x c f
      in andthen (log (Native (Magic_setflags c f (fst r) (snd r)))) (\<lambda>u. ret r))"

definition magic_version_wrapper :: "ext \<Rightarrow> (int \<times> int) M" where
  "magic_version_wrapper x =
     (let r = lib_magic_version_wrapper x
      in andthen (log (Native (Magic_version (fst r) (snd r)))) (\<lambda>u. ret r))"

definition magic_getpath_wrapper :: "ext \<Rightarrow> string M" where
  "magic_getpath_wrapper x =
     (let p = lib_magic_getpath_wrapper x
      in andthen (log (Native (Magic_getpath p))) (\<lambda>u. ret p))"

definition magic_error :: "ext \<Rightarrow> magic_t \<Rightarrow> cstring M" where
  "magic_error x c =
     (let m = lib_magic_error x c
      in andthen (log (Native (Magic_error c m))) (\<lambda>u. ret m))"

definition magic_errno :: "ext \<Rightarrow> magic_t \<Rightarrow> int M" where
  "magic_errno x c =
     (let e = lib_magic_errno x c
      in andthen (log (Native (Magic_errno c e))) (\<lambda>u. ret e))"

subsection \<open>Exceptions of the binding\<close>

text \<open>\<open>magic_exception\<close> with \<open>magic_exception_wrapper\<close>: a new exception of the class,
  with the message, and with \<open>@errno\<close> set.\<close>

definition magic_exception :: "magic_exception_t \<Rightarrow> exn" where
  "magic_exception e = Magic_exception (e_klass e) (e_magic_errno e) (e_magic_error e)"

definition magic_generic_error :: "klass \<Rightarrow> int \<Rightarrow> string \<Rightarrow> exn" where
  "magic_generic_error k magic_errno' magic_error' =
     magic_exception \<lparr>e_magic_errno = magic_errno', e_magic_error = magic_error', e_klass = k\<rparr>"

definition magic_library_error :: "ext \<Rightarrow> klass \<Rightarrow> magic_t \<Rightarrow> exn M" where
  "magic_library_error x k cookie =
     (if cookie = None then rb_exc_raise Assertion_failed
      else
        (let e = \<lparr>e_magic_errno = - 1, e_magic_error = error x E_UNKNOWN, e_klass = k\<rparr>
         in andthen (magic_error x cookie) (\<lambda>message.
              case message of
                None \<Rightarrow> ret (magic_exception e)
              | Some m \<Rightarrow>
                  andthen (magic_errno x cookie) (\<lambda>n.
                    ret (magic_exception (e\<lparr>e_magic_errno := n, e_magic_error := m\<rparr>))))))"

text \<open>Modelled from the spec: \<open>MAGIC_GENERIC_ERROR\<close> and \<open>MAGIC_LIBRARY_ERROR\<close>, macros
  of the missing header, raise the exception that \<open>magic_generic_error\<close> and
  \<open>magic_library_error\<close> build; the generic library error is \<open>Magic::MagicError\<close>.\<close>

definition MAGIC_GENERIC_ERROR :: "klass \<Rightarrow> int \<Rightarrow> string \<Rightarrow> 'a M" where
  "MAGIC_GENERIC_ERROR k e m = rb_exc_raise (magic_generic_error k e m)"

definition MAGIC_LIBRARY_ERROR :: "ext \<Rightarrow> magic_t \<Rightarrow> 'a M" where
  "MAGIC_LIBRARY_ERROR x c =
     andthen (magic_library_error x rb_mgc_eMagicError c) rb_exc_raise"

subsection \<open>The lock\<close>

definition magic_unlock :: "VALUE M" where
  "magic_unlock = andthen mutex_unlock (\<lambda>u. ret Qnil)"

definition magic_lock :: "('d \<Rightarrow> 'a M) \<Rightarrow> 'd \<Rightarrow> 'a M" where
  "magic_lock function data =
     andthen mutex_lock (\<lambda>u. rb_ensure (function data) magic_unlock)"

text \<open>Modelled from the spec: \<open>MAGIC_SYNCHRONIZED\<close>, a macro of the missing header,
  acquires the lock of the object around the function: it is \<open>magic_lock\<close> on the
  object of the method.\<close>

definition MAGIC_SYNCHRONIZED :: "('d \<Rightarrow> 'a M) \<Rightarrow> 'd \<Rightarrow> 'a M" where
  "MAGIC_SYNCHRONIZED f d = magic_lock f d"

subsection \<open>The functions run without the global lock\<close>

text \<open>\<open>nogvl_magic_load\<close>, \<open>nogvl_magic_check\<close> and \<open>nogvl_magic_compile\<close> answer with the
  null pointer or with their argument.\<close>

definition nogvl_magic_load :: "ext \<Rightarrow> magic_arguments_t \<Rightarrow> magic_arguments_t option M" where
  "nogvl_magic_load x ma =
     andthen (magic_load_wrapper x (ma_cookie ma) (ma_file_path ma) (ma_flags ma)) (\<lambda>rv.
       ret (if rv < 0 then None else Some ma))"

definition nogvl_magic_check :: "ext \<Rightarrow> magic_arguments_t \<Rightarrow> magic_arguments_t option M" where
  "nogvl_magic_check x ma =
     andthen (magic_check_wrapper x (ma_cookie ma) (ma_file_path ma) (ma_flags ma)) (\<lambda>rv.
       ret (if rv < 0 then None else Some ma))"

definition nogvl_magic_compile :: "ext \<Rightarrow> magic_arguments_t \<Rightarrow> magic_arguments_t option M" where
  "nogvl_magic_compile x ma =
     andthen (magic_compile_wrapper x (ma_cookie ma) (ma_file_path ma) (ma_flags ma)) (\<lambda>rv.
       ret (if rv < 0 then None else Some ma))"

definition nogvl_magic_file :: "ext \<Rightarrow> magic_arguments_t \<Rightarrow> cstring M" where
  "nogvl_magic_file x ma = magic_file x (ma_cookie ma) (ma_file_path ma)"

definition nogvl_magic_descriptor :: "ext \<Rightarrow> magic_arguments_t \<Rightarrow> cstring M" where
  "nogvl_magic_descriptor x ma = magic_descriptor x (ma_cookie ma) (ma_file_fd ma)"

definition magic_load_internal :: "ext \<Rightarrow> magic_arguments_t \<Rightarrow> magic_arguments_t option M" where
  "magic_load_internal x data = NOGVL (nogvl_magic_load x) data"

definition magic_check_internal :: "ext \<Rightarrow> magic_arguments_t \<Rightarrow> magic_arguments_t option M" where
  "magic_check_internal x data = NOGVL (nogvl_magic_check x) data"

definition magic_compile_internal :: "ext \<Rightarrow> magic_arguments_t \<Rightarrow> magic_arguments_t option M" where
  "magic_compile_internal x data = NOGVL (nogvl_magic_compile x) data"

definition magic_file_internal :: "ext \<Rightarrow> magic_arguments_t \<Rightarrow> cstring M" where
  "magic_file_internal x data = NOGVL (nogvl_magic_file x) data"

definition magic_descriptor_internal :: "ext \<Rightarrow> magic_arguments_t \<Rightarrow> cstring M" where
  "magic_descriptor_internal x data = NOGVL (nogvl_magic_descriptor x) data"

subsection \<open>Allocation and release\<close>

text \<open>\<open>magic_allocate\<close> makes the object: the data wrapper around a fresh cookie, no
  instance variable set yet. Without a cookie \<open>rb_memerror\<close> raises.\<close>

definition magic_allocate :: "ext \<Rightarrow> exn + state" where
  "magic_allocate x =
     (let cookie = lib_magic_open x MAGIC_NONE
      in if cookie = None then Inl NoMemError
         else Inr \<lparr>DATA_PTR = cookie, at_flags = Qnil, at_path = Qnil, at_mutex = None,
                   events = [Native (Magic_open MAGIC_NONE cookie)]\<rparr>)"

definition magic_free :: "magic_t \<Rightarrow> unit M" where
  "magic_free data = (let cookie = data in if cookie \<noteq> None then magic_close cookie else ret ())"

subsection \<open>The methods\<close>

definition rb_mgc_close :: "VALUE M" where
  "rb_mgc_close =
     andthen MAGIC_COOKIE (\<lambda>cookie.
     andthen (if cookie \<noteq> None
              then andthen (magic_free cookie) (\<lambda>u s.
                     if DATA_P s then (Inr (), s\<lparr>DATA_PTR := None\<rparr>) else (Inr (), s))
              else ret ()) (\<lambda>u.
     ret Qnil))"

definition rb_mgc_closed :: "VALUE M" where
  "rb_mgc_closed =
     andthen MAGIC_COOKIE (\<lambda>cookie s.
       if DATA_P s \<and> DATA_PTR s \<noteq> None \<and> cookie \<noteq> None then (Inr Qfalse, s)
       else (Inr Qtrue, s))"

text \<open>Modelled from the spec: \<open>CHECK_MAGIC_OPEN\<close> is a macro of the missing header.
  On an object that \<open>rb_mgc_closed\<close> reports closed it raises; the class, the number
  and the message of the exception are those of \<open>closed_exception\<close>.\<close>

definition CHECK_MAGIC_OPEN :: "ext \<Rightarrow> unit M" where
  "CHECK_MAGIC_OPEN x =
     andthen rb_mgc_closed (\<lambda>v.
       if RTEST v then rb_exc_raise (magic_exception (closed_exception x)) else ret ())"

definition rb_mgc_initialize :: "ext \<Rightarrow> bool \<Rightarrow> VALUE M" where
  "rb_mgc_initialize x block_given =
     andthen (if block_given then log Warn else ret ()) (\<lambda>u.
     andthen (\<lambda>s. (Inr (), s\<lparr>at_mutex := Some False\<rparr>)) (\<lambda>u.
     andthen MAGIC_COOKIE (\<lambda>cookie.
       let ma = (indeterminate x)\<lparr>ma_cookie := cookie, ma_flags := MAGIC_NONE,
                                  ma_file_path := None\<rparr>
       in
     andthen (MAGIC_SYNCHRONIZED (magic_load_internal x) ma) (\<lambda>r.
     andthen (if r = None then MAGIC_LIBRARY_ERROR x (ma_cookie ma) else ret ()) (\<lambda>u.
     andthen (rb_ivar_set id_at_flags (INT2NUM (ma_flags ma))) (\<lambda>v.
     ret RObject))))))"

text \<open>\<open>Magic.new\<close>: the allocator, then \<open>initialize\<close>; the new object is its state.\<close>

definition Magic_new :: "ext \<Rightarrow> bool \<Rightarrow> exn + state" where
  "Magic_new x block_given =
     (case magic_allocate x of
        Inl e \<Rightarrow> Inl e
      | Inr s \<Rightarrow>
          (case rb_mgc_initialize x block_given s of
             (Inl e, s') \<Rightarrow> Inl e
           | (Inr v, s') \<Rightarrow> Inr s'))"

definition rb_mgc_get_path :: "ext \<Rightarrow> VALUE M" where
  "rb_mgc_get_path x =
     andthen (CHECK_MAGIC_OPEN x) (\<lambda>u.
     andthen (rb_ivar_get id_at_path) (\<lambda>value.
       if \<not> NIL_P value \<and> \<not> RARRAY_EMPTY_P value \<and> lib_getenv_MAGIC x = None
       then ret value
       else
         andthen (magic_getpath_wrapper x) (\<lambda>cstring.
         andthen (lift (magic_split (CSTR2RVAL (Some cstring)) (CSTR2RVAL (Some '':'')))) (\<lambda>value.
         rb_ivar_set id_at_path value))))"

definition rb_mgc_get_flags :: "ext \<Rightarrow> VALUE M" where
  "rb_mgc_get_flags x =
     andthen (CHECK_MAGIC_OPEN x) (\<lambda>u. rb_ivar_get id_at_flags)"

definition rb_mgc_set_flags :: "ext \<Rightarrow> VALUE \<Rightarrow> VALUE M" where
  "rb_mgc_set_flags x value =
     andthen (lift (Check_Type value T_FIXNUM)) (\<lambda>u.
     andthen (CHECK_MAGIC_OPEN x) (\<lambda>u.
     andthen MAGIC_COOKIE (\<lambda>cookie.
     andthen (lift (NUM2INT value)) (\<lambda>n.
     andthen (magic_setflags_wrapper x cookie n) (\<lambda>(rv, local_errno).
     andthen (if rv < 0
              then (if local_errno = ENOSYS
                    then MAGIC_GENERIC_ERROR rb_mgc_eNotImplementedError ENOSYS
                           (error x E_NOT_IMPLEMENTED)
                    else if local_errno = EINVAL
                    then MAGIC_GENERIC_ERROR rb_mgc_eFlagsError EINVAL
                           (error x E_INVALID_ARGUMENT)
                    else MAGIC_LIBRARY_ERROR x cookie)
              else ret ()) (\<lambda>u.
     rb_ivar_set id_at_flags value))))))"

definition rb_mgc_load :: "ext \<Rightarrow> VALUE \<Rightarrow> VALUE M" where
  "rb_mgc_load x arguments =
     andthen (CHECK_MAGIC_OPEN x) (\<lambda>u.
     andthen MAGIC_COOKIE (\<lambda>cookie.
     andthen (if \<not> RARRAY_EMPTY_P arguments
              then andthen (lift (magic_join x arguments (CSTR2RVAL (Some '':''))))
                     (\<lambda>value. lift (RVAL2CSTR value))
              else andthen (magic_getpath_wrapper x) (\<lambda>p. ret (Some p))) (\<lambda>path.
     andthen (andthen (rb_mgc_get_flags x) (\<lambda>v. lift (NUM2INT v))) (\<lambda>flags.
       let ma = (indeterminate x)\<lparr>ma_cookie := cookie, ma_file_path := path,
                                  ma_flags := flags\<rparr>
       in
     andthen (MAGIC_SYNCHRONIZED (magic_load_internal x) ma) (\<lambda>r.
     andthen (if r = None then MAGIC_LIBRARY_ERROR x (ma_cookie ma) else ret ()) (\<lambda>u.
     andthen (lift (magic_split (CSTR2RVAL (ma_file_path ma)) (CSTR2RVAL (Some '':'')))) (\<lambda>value.
     rb_ivar_set id_at_path value)))))))"

text \<open>In \<open>rb_mgc_check\<close> and \<open>rb_mgc_compile\<close> the path of \<open>ma\<close> is written only when
  there are arguments; without them the library is given what the struct held.\<close>

definition rb_mgc_check :: "ext \<Rightarrow> VALUE \<Rightarrow> VALUE M" where
  "rb_mgc_check x arguments =
     andthen (CHECK_MAGIC_OPEN x) (\<lambda>u.
     andthen MAGIC_COOKIE (\<lambda>cookie.
     andthen (if \<not> RARRAY_EMPTY_P arguments
              then andthen (lift (magic_join x arguments (CSTR2RVAL (Some '':''))))
                     (\<lambda>value. lift (RVAL2CSTR value))
              else ret (ma_file_path (indeterminate x))) (\<lambda>path.
     andthen (andthen (rb_mgc_get_flags x) (\<lambda>v. lift (NUM2INT v))) (\<lambda>flags.
       let ma = (indeterminate x)\<lparr>ma_cookie := cookie, ma_file_path := path,
                                  ma_flags := flags\<rparr>
       in
     andthen (MAGIC_SYNCHRONIZED (magic_check_internal x) ma) (\<lambda>r.
       if r = None then ret Qfalse else ret Qtrue)))))"

definition rb_mgc_compile :: "ext \<Rightarrow> VALUE \<Rightarrow> VALUE M" where
  "rb_mgc_compile x arguments =
     andthen (CHECK_MAGIC_OPEN x) (\<lambda>u.
     andthen MAGIC_COOKIE (\<lambda>cookie.
     andthen (if \<not> RARRAY_EMPTY_P arguments
              then andthen (lift (magic_join x arguments (CSTR2RVAL (Some '':''))))
                     (\<lambda>value. lift (RVAL2CSTR value))
              else ret (ma_file_path (indeterminate x))) (\<lambda>path.
     andthen (andthen (rb_mgc_get_flags x) (\<lambda>v. lift (NUM2INT v))) (\<lambda>flags.
       let ma = (indeterminate x)\<lparr>ma_cookie := cookie, ma_file_path := path,
                                  ma_flags := flags\<rparr>
       in
     andthen (MAGIC_SYNCHRONIZED (magic_compile_internal x) ma) (\<lambda>r.
     andthen (if r = None then MAGIC_LIBRARY_ERROR x (ma_cookie ma) else ret ()) (\<lambda>u.
     ret Qtrue))))))"

definition rb_mgc_file :: "ext \<Rightarrow> VALUE \<Rightarrow> VALUE M" where
  "rb_mgc_file x value =
     andthen (lift (Check_Type value T_STRING)) (\<lambda>u.
     andthen (CHECK_MAGIC_OPEN x) (\<lambda>u.
     andthen MAGIC_COOKIE (\<lambda>cookie.
     andthen (lift (RVAL2CSTR value)) (\<lambda>path.
       let ma = (indeterminate x)\<lparr>ma_cookie := cookie, ma_file_path := path\<rparr>
       in
     andthen (MAGIC_SYNCHRONIZED (magic_file_internal x) ma) (\<lambda>cstring.
     andthen (if cstring = None then MAGIC_LIBRARY_ERROR x (ma_cookie ma) else ret ()) (\<lambda>u.
     ret (CSTR2RVAL cstring)))))))"

definition rb_mgc_buffer :: "ext \<Rightarrow> VALUE \<Rightarrow> VALUE M" where
  "rb_mgc_buffer x value =
     andthen (lift (Check_Type value T_STRING)) (\<lambda>u.
     andthen (CHECK_MAGIC_OPEN x) (\<lambda>u.
     andthen MAGIC_COOKIE (\<lambda>cookie.
     andthen (lift (RVAL2CSTR value)) (\<lambda>b.
     andthen (magic_buffer x cookie b (RSTRING_LEN value)) (\<lambda>cstring.
     andthen (if cstring = None then MAGIC_LIBRARY_ERROR x cookie else ret ()) (\<lambda>u.
     ret (CSTR2RVAL cstring)))))))"

definition rb_mgc_descriptor :: "ext \<Rightarrow> VALUE \<Rightarrow> VALUE M" where
  "rb_mgc_descriptor x value =
     andthen (lift (Check_Type value T_FIXNUM)) (\<lambda>u.
     andthen (CHECK_MAGIC_OPEN x) (\<lambda>u.
     andthen MAGIC_COOKIE (\<lambda>cookie.
     andthen (lift (NUM2INT value)) (\<lambda>fd.
       let ma = (indeterminate x)\<lparr>ma_cookie := cookie, ma_file_fd := fd\<rparr>
       in
     andthen (MAGIC_SYNCHRONIZED (magic_descriptor_internal x) ma) (\<lambda>cstring.
     andthen (if cstring = None then MAGIC_LIBRARY_ERROR x (ma_cookie ma) else ret ()) (\<lambda>u.
     ret (CSTR2RVAL cstring)))))))"

text \<open>\<open>rb_mgc_version\<close> is a method of the class: its argument, unused, is not an
  object with a cookie.\<close>

definition rb_mgc_version :: "ext \<Rightarrow> VALUE M" where
  "rb_mgc_version x =
     andthen (magic_version_wrapper x) (\<lambda>(rv, local_errno).
     andthen (if rv < 0 \<and> local_errno = ENOSYS
              then MAGIC_GENERIC_ERROR rb_mgc_eNotImplementedError ENOSYS
                     (error x E_NOT_IMPLEMENTED)
              else ret ()) (\<lambda>u.
     ret (INT2NUM rv)))"

subsection \<open>The methods \<open>Init_magic\<close> registers\<close>

text \<open>A method with its arguments: none, one, or the array of all of them, as the
  arity given to \<open>rb_define_method\<close> says.\<close>

datatype magic_method =
    M_close
  | M_closed_p
  | M_path
  | M_flags
  | M_set_flags VALUE
  | M_file VALUE
  | M_buffer VALUE
  | M_descriptor VALUE
  | M_load "VALUE list"
  | M_compile "VALUE list"
  | M_check "VALUE list"
  | M_version

fun Magic_send :: "ext \<Rightarrow> magic_method \<Rightarrow> VALUE M" where
  "Magic_send x M_close = rb_mgc_close"
| "Magic_send x M_closed_p = rb_mgc_closed"
| "Magic_send x M_path = rb_mgc_get_path x"
| "Magic_send x M_flags = rb_mgc_get_flags x"
| "Magic_send x (M_set_flags v) = rb_mgc_set_flags x v"
| "Magic_send x (M_file v) = rb_mgc_file x v"
| "Magic_send x (M_buffer v) = rb_mgc_buffer x v"
| "Magic_send x (M_descriptor v) = rb_mgc_descriptor x v"
| "Magic_send x (M_load args) = rb_mgc_load x (RArray args)"
| "Magic_send x (M_compile args) = rb_mgc_compile x (RArray args)"
| "Magic_send x (M_check args) = rb_mgc_check x (RArray args)"
| "Magic_send x M_version = rb_mgc_version x"

subsection \<open>Two libraries to run the methods on\<close>

text \<open>\<open>lib_present\<close> answers every call with success. \<open>lib_failing\<close> lets \<open>Magic.new\<close>
  succeed (it opens a cookie and loads the default database, the load with the null
  path) and fails every later load, check, compile and identification, with a
  message and the number 2 for \<open>magic_error\<close> and \<open>magic_errno\<close>.\<close>

fun string_of :: "VALUE \<Rightarrow> string" where
  "string_of (RString s) = s"
| "string_of v = []"

fun join_strings :: "string \<Rightarrow> string list \<Rightarrow> string" where
  "join_strings sep [] = []"
| "join_strings sep [s] = s"
| "join_strings sep (s # t # ss) = s @ sep @ join_strings sep (t # ss)"

definition lib_present :: ext where
  "lib_present =
     \<lparr>lib_magic_open = (\<lambda>f. Some 1),
      lib_magic_load_wrapper = (\<lambda>c p f. 0),
      lib_magic_check_wrapper = (\<lambda>c p f. 0),
      lib_magic_compile_wrapper = (\<lambda>c p f. 0),
      lib_magic_file = (\<lambda>c p. Some ''ASCII text''),
      lib_magic_buffer = (\<lambda>c b n. Some ''data''),
      lib_magic_descriptor = (\<lambda>c fd. Some ''empty''),
      lib_magic_setflags_wrapper = (\<lambda>c f. (0, 0)),
      lib_magic_version_wrapper = (514, 0),
      lib_magic_getpath_wrapper = ''/etc/magic:/usr/share/misc/magic'',
      lib_magic_error = (\<lambda>c. None),
      lib_magic_errno = (\<lambda>c. 0),
      lib_getenv_MAGIC = None,
      error = (\<lambda>c. case c of E_UNKNOWN \<Rightarrow> ''unknown error''
                           | E_NOT_IMPLEMENTED \<Rightarrow> ''function is not implemented''
                           | E_INVALID_ARGUMENT \<Rightarrow> ''invalid argument''),
      lib_array_join = (\<lambda>xs sep. Inr (join_strings sep (map string_of xs))),
      closed_exception =
        \<lparr>e_magic_errno = 14, e_magic_error = ''library is closed'',
         e_klass = rb_mgc_eBadAddressError\<rparr>,
      indeterminate = \<lparr>ma_cookie = None, ma_file_path = None, ma_file_fd = 0, ma_flags = 0\<rparr>\<rparr>"

definition lib_failing :: ext where
  "lib_failing =
     lib_present
       \<lparr>lib_magic_load_wrapper := (\<lambda>c p f. if p = None then 0 else - 1),
        lib_magic_check_wrapper := (\<lambda>c p f. - 1),
        lib_magic_compile_wrapper := (\<lambda>c p f. - 1),
        lib_magic_file := (\<lambda>c p. None),
        lib_magic_buffer := (\<lambda>c b n. None),
        lib_magic_descriptor := (\<lambda>c fd. None),
        lib_magic_error := (\<lambda>c. Some ''no such file''),
        lib_magic_errno := (\<lambda>c. 2)\<rparr>"

text \<open>\<open>lib_rejecting\<close> rejects every value of the flags; \<open>lib_outdated\<close> is a library
  without the entry points for the version and for the flags.\<close>

definition lib_rejecting :: ext where
  "lib_rejecting = lib_present\<lparr>lib_magic_setflags_wrapper := (\<lambda>c f. (- 1, EINVAL))\<rparr>"

definition lib_outdated :: ext where
  "lib_outdated =
     lib_present
       \<lparr>lib_magic_setflags_wrapper := (\<lambda>c f. (- 1, ENOSYS)),
        lib_magic_version_wrapper := (- 1, ENOSYS)\<rparr>"

text \<open>\<open>lib_silent\<close> fails as \<open>lib_failing\<close> does and has no message for the failure.\<close>

definition lib_silent :: ext where
  "lib_silent = lib_failing\<lparr>lib_magic_error := (\<lambda>c. None)\<rparr>"

text \<open>The open object while its mutex is held, as it is for as long as a call
  made under the lock is inside the library.\<close>

definition busy :: state where
  "busy =
     \<lparr>DATA_PTR = Some 1, at_flags = Fixnum 0, at_path = Qnil, at_mutex = Some True,
      events = [Native (Magic_open 0 (Some 1)), Lock, Native (Magic_load (Some 1) None 0 0),
                Unlock, Lock]\<rparr>"

text \<open>An open object, as \<open>Magic.new\<close> leaves it with \<open>lib_present\<close>, and the same
  object closed.\<close>

definition opened :: state where
  "opened =
     \<lparr>DATA_PTR = Some 1, at_flags = Fixnum 0, at_path = Qnil, at_mutex = Some False,
      events = [Native (Magic_open 0 (Some 1)), Lock, Native (Magic_load (Some 1) None 0 0),
                Unlock]\<rparr>"

definition closed :: state where
  "closed = opened\<lparr>DATA_PTR := None\<rparr>"

subsection \<open>Properties of a log\<close>

text \<open>\<open>locked_when P held evs\<close>: in the log \<open>evs\<close>, started with the mutex held or not
  as \<open>held\<close> says, every call of the library that \<open>P\<close> selects is made while the mutex
  is held.\<close>

fun locked_when :: "(native \<Rightarrow> bool) \<Rightarrow> bool \<Rightarrow> event list \<Rightarrow> bool" where
  "locked_when P held [] = True"
| "locked_when P held (Lock # evs) = locked_when P True evs"
| "locked_when P held (Unlock # evs) = locked_when P False evs"
| "locked_when P held (Warn # evs) = locked_when P held evs"
| "locked_when P held (Native c # evs) = ((if P c then held else True) \<and> locked_when P held evs)"

text \<open>Every call of the library.\<close>

definition any_call :: "native \<Rightarrow> bool" where
  "any_call c = True"

text \<open>A call of load, check, compile, file, buffer or descriptor that the library
  answered with a negative value or with the null pointer.\<close>

fun failed :: "native \<Rightarrow> bool" where
  "failed (Magic_load c p f rv) = (rv < 0)"
| "failed (Magic_check c p f rv) = (rv < 0)"
| "failed (Magic_compile c p f rv) = (rv < 0)"
| "failed (Magic_file c p r) = (r = None)"
| "failed (Magic_buffer c b n r) = (r = None)"
| "failed (Magic_descriptor c fd r) = (r = None)"
| "failed c = False"

text \<open>The log has such a call.\<close>

fun native_failed :: "event list \<Rightarrow> bool" where
  "native_failed [] = False"
| "native_failed (Native c # evs) = (failed c \<or> native_failed evs)"
| "native_failed (ev # evs) = native_failed evs"

text \<open>What an operation appended to the log.\<close>

definition new_events :: "state \<Rightarrow> state \<Rightarrow> event list" where
  "new_events s s' = drop (length (events s)) (events s')"

section \<open>How the building blocks run\<close>

lemmas monad_defs = ret_def rb_exc_raise_def andthen_def log_def gets_def rb_ensure_def lift_def

lemmas call_defs = magic_open_def magic_close_def magic_load_wrapper_def magic_check_wrapper_def
  magic_compile_wrapper_def magic_file_def magic_buffer_def magic_descriptor_def
  magic_setflags_wrapper_def magic_version_wrapper_def magic_getpath_wrapper_def
  magic_error_def magic_errno_def

lemmas internal_defs =
  nogvl_magic_load_def nogvl_magic_check_def nogvl_magic_compile_def nogvl_magic_file_def
  nogvl_magic_descriptor_def magic_load_internal_def magic_check_internal_def
  magic_compile_internal_def magic_file_internal_def magic_descriptor_internal_def

lemmas example_defs = lib_present_def opened_def ENOSYS_def EINVAL_def INT_MIN_def INT_MAX_def
  MAGIC_NONE_def

lemma rb_mgc_closed_eq:
  "rb_mgc_closed s = (if DATA_PTR s = None then (Inr Qtrue, s) else (Inr Qfalse, s))"
  by (simp add: rb_mgc_closed_def MAGIC_COOKIE_def DATA_P_def monad_defs)

lemma CHECK_MAGIC_OPEN_eq:
  "CHECK_MAGIC_OPEN x s =
     (if DATA_PTR s = None then (Inl (magic_exception (closed_exception x)), s)
      else (Inr (), s))"
  by (simp add: CHECK_MAGIC_OPEN_def rb_mgc_closed_eq monad_defs RTEST_def)

text \<open>The lock: nothing runs unless the mutex is there and free; once it is taken,
  the function runs and the mutex is given back, whatever the function answered.\<close>

lemma magic_lock_eq:
  "magic_lock f d s =
     (case at_mutex s of
        None \<Rightarrow> (Inl NoMethodError, s)
      | Some True \<Rightarrow> (Inl ThreadError, s)
      | Some False \<Rightarrow>
          (case f d (s\<lparr>at_mutex := Some True, events := events s @ [Lock]\<rparr>) of
             (r, s1) \<Rightarrow>
               (case at_mutex s1 of
                  None \<Rightarrow> (Inl NoMethodError, s1)
                | Some False \<Rightarrow> (Inl ThreadError, s1)
                | Some True \<Rightarrow>
                    (r, s1\<lparr>at_mutex := Some False, events := events s1 @ [Unlock]\<rparr>))))"
  by (simp add: magic_lock_def magic_unlock_def mutex_lock_def mutex_unlock_def monad_defs
      split: option.splits bool.splits prod.splits)

lemma MAGIC_LIBRARY_ERROR_eq:
  "MAGIC_LIBRARY_ERROR x c s =
     (if c = None then (Inl Assertion_failed, s)
      else
        (case lib_magic_error x c of
           None \<Rightarrow>
             (Inl (Magic_exception rb_mgc_eMagicError (- 1) (error x E_UNKNOWN)),
              s\<lparr>events := events s @ [Native (Magic_error c None)]\<rparr>)
         | Some m \<Rightarrow>
             (Inl (Magic_exception rb_mgc_eMagicError (lib_magic_errno x c) m),
              s\<lparr>events := events s @
                   [Native (Magic_error c (Some m)),
                    Native (Magic_errno c (lib_magic_errno x c))]\<rparr>)))"
  by (simp add: MAGIC_LIBRARY_ERROR_def magic_library_error_def magic_error_def
      magic_errno_def Let_def monad_defs magic_exception_def split: option.split)

lemma sync_eqs:
  "MAGIC_SYNCHRONIZED (magic_load_internal x) ma s =
     (case at_mutex s of
        None \<Rightarrow> (Inl NoMethodError, s)
      | Some True \<Rightarrow> (Inl ThreadError, s)
      | Some False \<Rightarrow>
         (Inr (if lib_magic_load_wrapper x (ma_cookie ma) (ma_file_path ma) (ma_flags ma) < 0
               then None else Some ma),
          s\<lparr>events := events s @
               [Lock,
                Native (Magic_load (ma_cookie ma) (ma_file_path ma) (ma_flags ma)
                  (lib_magic_load_wrapper x (ma_cookie ma) (ma_file_path ma) (ma_flags ma))),
                Unlock]\<rparr>))"
  "MAGIC_SYNCHRONIZED (magic_check_internal x) ma s =
     (case at_mutex s of
        None \<Rightarrow> (Inl NoMethodError, s)
      | Some True \<Rightarrow> (Inl ThreadError, s)
      | Some False \<Rightarrow>
         (Inr (if lib_magic_check_wrapper x (ma_cookie ma) (ma_file_path ma) (ma_flags ma) < 0
               then None else Some ma),
          s\<lparr>events := events s @
               [Lock,
                Native (Magic_check (ma_cookie ma) (ma_file_path ma) (ma_flags ma)
                  (lib_magic_check_wrapper x (ma_cookie ma) (ma_file_path ma) (ma_flags ma))),
                Unlock]\<rparr>))"
  "MAGIC_SYNCHRONIZED (magic_compile_internal x) ma s =
     (case at_mutex s of
        None \<Rightarrow> (Inl NoMethodError, s)
      | Some True \<Rightarrow> (Inl ThreadError, s)
      | Some False \<Rightarrow>
         (Inr (if lib_magic_compile_wrapper x (ma_cookie ma) (ma_file_path ma) (ma_flags ma) < 0
               then None else Some ma),
          s\<lparr>events := events s @
               [Lock,
                Native (Magic_compile (ma_cookie ma) (ma_file_path ma) (ma_flags ma)
                  (lib_magic_compile_wrapper x (ma_cookie ma) (ma_file_path ma) (ma_flags ma))),
                Unlock]\<rparr>))"
  "MAGIC_SYNCHRONIZED (magic_file_internal x) ma s =
     (case at_mutex s of
        None \<Rightarrow> (Inl NoMethodError, s)
      | Some True \<Rightarrow> (Inl ThreadError, s)
      | Some False \<Rightarrow>
         (Inr (lib_magic_file x (ma_cookie ma) (ma_file_path ma)),
          s\<lparr>events := events s @
               [Lock,
                Native (Magic_file (ma_cookie ma) (ma_file_path ma)
                  (lib_magic_file x (ma_cookie ma) (ma_file_path ma))),
                Unlock]\<rparr>))"
  "MAGIC_SYNCHRONIZED (magic_descriptor_internal x) ma s =
     (case at_mutex s of
        None \<Rightarrow> (Inl NoMethodError, s)
      | Some True \<Rightarrow> (Inl ThreadError, s)
      | Some False \<Rightarrow>
         (Inr (lib_magic_descriptor x (ma_cookie ma) (ma_file_fd ma)),
          s\<lparr>events := events s @
               [Lock,
                Native (Magic_descriptor (ma_cookie ma) (ma_file_fd ma)
                  (lib_magic_descriptor x (ma_cookie ma) (ma_file_fd ma))),
                Unlock]\<rparr>))"
  by (simp_all add: MAGIC_SYNCHRONIZED_def magic_lock_eq internal_defs call_defs NOGVL_def
      Let_def monad_defs split: option.split bool.split)

lemmas step_eqs = CHECK_MAGIC_OPEN_eq sync_eqs MAGIC_LIBRARY_ERROR_eq
  ret_def rb_exc_raise_def andthen_def lift_def gets_def log_def MAGIC_COOKIE_def Let_def
  MAGIC_GENERIC_ERROR_def case_prod_beta new_events_def

lemmas method_defs = rb_mgc_close_def rb_mgc_closed_eq rb_mgc_get_path_def rb_mgc_get_flags_def
  rb_mgc_set_flags_def rb_mgc_load_def rb_mgc_check_def rb_mgc_compile_def rb_mgc_file_def
  rb_mgc_buffer_def rb_mgc_descriptor_def rb_mgc_version_def magic_free_def DATA_P_def
  magic_close_def magic_buffer_def magic_setflags_wrapper_def magic_version_wrapper_def
  magic_getpath_wrapper_def

text \<open>\<open>Magic.new\<close> with \<open>lib_present\<close> gives the object \<open>opened\<close>; whatever the
  library, the object \<open>Magic.new\<close> returns has its cookie.\<close>

lemma Magic_new_present: "Magic_new lib_present False = Inr opened"
  by (simp add: Magic_new_def magic_allocate_def rb_mgc_initialize_def INT2NUM_def
      step_eqs example_defs)

lemma Magic_new_open:
  assumes "Magic_new x b = Inr s"
  shows "DATA_PTR s \<noteq> None"
proof (cases "lib_magic_open x MAGIC_NONE")
  case None
  with assms show ?thesis
    by (simp add: Magic_new_def magic_allocate_def)
next
  case (Some a)
  with assms show ?thesis
    by (auto simp add: Magic_new_def magic_allocate_def rb_mgc_initialize_def INT2NUM_def
        step_eqs split: if_splits option.splits)
qed


section \<open>Closing\<close>

text \<open>
  C5. On an object that has been opened, so that its wrapper holds a cookie, \<open>close\<close>
  hands the cookie to \<open>magic_close\<close> of the library, clears the pointer of the wrapper
  and returns nil; \<open>closed?\<close> then answers true.
\<close>

theorem close_destroys_cookie:
  assumes "DATA_PTR s = Some a"
  shows "rb_mgc_close s =
           (Inr Qnil,
            s\<lparr>DATA_PTR := None, events := events s @ [Native (Magic_close (Some a))]\<rparr>)
         \<and> fst (rb_mgc_closed (snd (rb_mgc_close s))) = Inr Qtrue"
  using assms by (simp add: method_defs step_eqs)

theorem close_destroys_cookie_witness:
  "Magic_new lib_present False = Inr opened
   \<and> DATA_PTR opened = Some 1
   \<and> rb_mgc_close opened =
       (Inr Qnil,
        opened\<lparr>DATA_PTR := None,
               events := events opened @ [Native (Magic_close (Some 1))]\<rparr>)
   \<and> fst (rb_mgc_closed (snd (rb_mgc_close opened))) = Inr Qtrue"
proof -
  have open1: "DATA_PTR opened = Some 1"
    by (simp add: opened_def)
  from close_destroys_cookie [OF open1] open1 Magic_new_present show ?thesis
    by (simp add: rb_mgc_closed_eq)
qed

text \<open>
  C9. On an object that is closed already, \<open>close\<close> returns nil and leaves the state
  as it was: no exception, nothing added to the log, so no second \<open>magic_close\<close>, and
  \<open>closed?\<close> still answers true.
\<close>

theorem close_idempotent:
  assumes "DATA_PTR s = None"
  shows "rb_mgc_close s = (Inr Qnil, s) \<and> fst (rb_mgc_closed s) = Inr Qtrue"
  using assms by (simp add: method_defs step_eqs)

theorem close_idempotent_witness:
  "DATA_PTR (snd (rb_mgc_close opened)) = None
   \<and> rb_mgc_close (snd (rb_mgc_close opened)) = (Inr Qnil, snd (rb_mgc_close opened))
   \<and> fst (rb_mgc_closed (snd (rb_mgc_close opened))) = Inr Qtrue"
proof -
  have shut: "DATA_PTR (snd (rb_mgc_close opened)) = None"
    by (simp add: method_defs step_eqs opened_def)
  from close_idempotent [OF shut] shut show ?thesis
    by simp
qed

section \<open>The flags\<close>

lemmas conv_defs = Check_Type_def NUM2INT_def RVAL2CSTR_def magic_split_def magic_join_def
  CSTR2RVAL_def RARRAY_EMPTY_P_def NIL_P_def INT2NUM_def RSTRING_LEN_def

text \<open>
  C3. On an open object, for an integer \<open>n\<close> that fits a C \<open>int\<close> and that the library
  accepts (its call does not answer with a negative value), \<open>flags=\<close> returns \<open>n\<close> and
  \<open>flags\<close>, called next, returns \<open>n\<close> too.
\<close>

theorem set_flags_get_flags:
  assumes "DATA_PTR s = Some a"
    and "INT_MIN \<le> n" and "n \<le> INT_MAX"
    and "0 \<le> fst (lib_magic_setflags_wrapper x (Some a) n)"
  shows "fst (rb_mgc_set_flags x (Fixnum n) s) = Inr (Fixnum n)
       \<and> fst (rb_mgc_get_flags x (snd (rb_mgc_set_flags x (Fixnum n) s))) = Inr (Fixnum n)"
  using assms by (simp add: method_defs step_eqs conv_defs)

theorem set_flags_get_flags_witness:
  "DATA_PTR opened = Some 1 \<and> INT_MIN \<le> 1040 \<and> 1040 \<le> INT_MAX
   \<and> 0 \<le> fst (lib_magic_setflags_wrapper lib_present (Some 1) 1040)
   \<and> fst (rb_mgc_set_flags lib_present (Fixnum 1040) opened) = Inr (Fixnum 1040)
   \<and> fst (rb_mgc_get_flags lib_present (snd (rb_mgc_set_flags lib_present (Fixnum 1040) opened)))
       = Inr (Fixnum 1040)"
proof -
  have h: "DATA_PTR opened = Some 1" "INT_MIN \<le> 1040" "1040 \<le> INT_MAX"
    "0 \<le> fst (lib_magic_setflags_wrapper lib_present (Some 1) 1040)"
    by (simp_all add: example_defs)
  from set_flags_get_flags [OF h] h show ?thesis
    by blast
qed

text \<open>
  C6. When the call of the library for the version fails with \<open>ENOSYS\<close>, \<open>version\<close>
  raises the not-implemented error with \<open>@errno\<close> \<open>ENOSYS\<close>; when the call for the
  flags, made by \<open>flags=\<close> on an open object with an integer that fits a C \<open>int\<close>,
  fails with \<open>ENOSYS\<close>, \<open>flags=\<close> raises the same error.
\<close>

theorem not_implemented_on_ENOSYS:
  "(fst (lib_magic_version_wrapper x) < 0 \<and> snd (lib_magic_version_wrapper x) = ENOSYS
      \<longrightarrow> fst (rb_mgc_version x s) =
            Inl (Magic_exception rb_mgc_eNotImplementedError ENOSYS (error x E_NOT_IMPLEMENTED)))
   \<and> (DATA_PTR s = Some a \<and> INT_MIN \<le> n \<and> n \<le> INT_MAX
       \<and> fst (lib_magic_setflags_wrapper x (Some a) n) < 0
       \<and> snd (lib_magic_setflags_wrapper x (Some a) n) = ENOSYS
      \<longrightarrow> fst (rb_mgc_set_flags x (Fixnum n) s) =
            Inl (Magic_exception rb_mgc_eNotImplementedError ENOSYS (error x E_NOT_IMPLEMENTED)))"
  by (simp add: method_defs step_eqs conv_defs magic_generic_error_def magic_exception_def)

theorem not_implemented_on_ENOSYS_witness:
  "fst (lib_magic_version_wrapper lib_outdated) < 0
   \<and> snd (lib_magic_version_wrapper lib_outdated) = ENOSYS
   \<and> fst (rb_mgc_version lib_outdated opened) =
       Inl (Magic_exception rb_mgc_eNotImplementedError 38 ''function is not implemented'')
   \<and> DATA_PTR opened = Some 1 \<and> INT_MIN \<le> 16 \<and> 16 \<le> INT_MAX
   \<and> fst (lib_magic_setflags_wrapper lib_outdated (Some 1) 16) < 0
   \<and> snd (lib_magic_setflags_wrapper lib_outdated (Some 1) 16) = ENOSYS
   \<and> fst (rb_mgc_set_flags lib_outdated (Fixnum 16) opened) =
       Inl (Magic_exception rb_mgc_eNotImplementedError 38 ''function is not implemented'')"
  using not_implemented_on_ENOSYS [of lib_outdated opened 1 16]
  by (simp add: example_defs lib_outdated_def)

text \<open>
  C7. When the call of the library for the flags, made by \<open>flags=\<close> on an open object
  with an integer that fits a C \<open>int\<close>, fails with \<open>EINVAL\<close>, \<open>flags=\<close> raises the flags
  error with \<open>@errno\<close> \<open>EINVAL\<close>.
\<close>

theorem flags_error_on_EINVAL:
  assumes "DATA_PTR s = Some a"
    and "INT_MIN \<le> n" and "n \<le> INT_MAX"
    and "fst (lib_magic_setflags_wrapper x (Some a) n) < 0"
    and "snd (lib_magic_setflags_wrapper x (Some a) n) = EINVAL"
  shows "fst (rb_mgc_set_flags x (Fixnum n) s) =
           Inl (Magic_exception rb_mgc_eFlagsError EINVAL (error x E_INVALID_ARGUMENT))"
  using assms
  by (simp add: method_defs step_eqs conv_defs magic_generic_error_def magic_exception_def
      ENOSYS_def EINVAL_def)

theorem flags_error_on_EINVAL_witness:
  "DATA_PTR opened = Some 1 \<and> INT_MIN \<le> 4096 \<and> 4096 \<le> INT_MAX
   \<and> fst (lib_magic_setflags_wrapper lib_rejecting (Some 1) 4096) < 0
   \<and> snd (lib_magic_setflags_wrapper lib_rejecting (Some 1) 4096) = EINVAL
   \<and> fst (rb_mgc_set_flags lib_rejecting (Fixnum 4096) opened) =
       Inl (Magic_exception rb_mgc_eFlagsError 22 ''invalid argument'')"
proof -
  have h: "DATA_PTR opened = Some 1" "INT_MIN \<le> 4096" "4096 \<le> INT_MAX"
    "fst (lib_magic_setflags_wrapper lib_rejecting (Some 1) 4096) < 0"
    "snd (lib_magic_setflags_wrapper lib_rejecting (Some 1) 4096) = EINVAL"
    by (simp_all add: example_defs lib_rejecting_def)
  from flags_error_on_EINVAL [OF h] h show ?thesis
    by (simp add: example_defs lib_rejecting_def)
qed

text \<open>The three ways \<open>flags=\<close> raises: an argument that is no integer, a closed
  object, a failure of the call of the library.\<close>

lemma set_flags_raises_on_type:
  "rb_type v \<noteq> T_FIXNUM \<Longrightarrow> rb_mgc_set_flags x v s = (Inl TypeError, s)"
  by (simp add: method_defs step_eqs Check_Type_def)

lemma set_flags_raises_on_closed:
  "DATA_PTR s = None \<Longrightarrow> \<exists>e. rb_mgc_set_flags x v s = (Inl e, s)"
  by (simp add: method_defs step_eqs Check_Type_def)

lemma set_flags_raises_on_failure:
  assumes "DATA_PTR s = Some a" and "INT_MIN \<le> n" and "n \<le> INT_MAX"
    and "fst (lib_magic_setflags_wrapper x (Some a) n) < 0"
  shows "\<exists>e. fst (rb_mgc_set_flags x (Fixnum n) s) = Inl e"
  using assms
  by (simp add: method_defs step_eqs conv_defs split: option.split)

text \<open>
  C8. Whenever \<open>flags=\<close> raises, \<open>@flags\<close> is what it was before the call.
\<close>

theorem set_flags_raise_keeps_flags:
  assumes "fst (rb_mgc_set_flags x v s) = Inl e"
  shows "at_flags (snd (rb_mgc_set_flags x v s)) = at_flags s"
proof (cases "DATA_PTR s")
  case None
  then show ?thesis
    by (simp add: method_defs step_eqs split: sum.split)
next
  case (Some a)
  with assms show ?thesis
    by (auto simp add: method_defs step_eqs split: sum.splits if_splits option.splits)
qed

theorem set_flags_raise_keeps_flags_witness:
  "fst (rb_mgc_set_flags lib_present (RString ''MIME'') opened) = Inl TypeError
   \<and> at_flags (snd (rb_mgc_set_flags lib_present (RString ''MIME'') opened)) = Fixnum 0
   \<and> fst (rb_mgc_set_flags lib_present (Fixnum 16) closed) =
       Inl (Magic_exception rb_mgc_eBadAddressError 14 ''library is closed'')
   \<and> at_flags (snd (rb_mgc_set_flags lib_present (Fixnum 16) closed)) = Fixnum 0
   \<and> fst (rb_mgc_set_flags lib_rejecting (Fixnum 16) opened) =
       Inl (Magic_exception rb_mgc_eFlagsError 22 ''invalid argument'')
   \<and> at_flags (snd (rb_mgc_set_flags lib_rejecting (Fixnum 16) opened)) = Fixnum 0"
proof -
  have h1: "fst (rb_mgc_set_flags lib_present (RString ''MIME'') opened) = Inl TypeError"
    by (simp add: method_defs step_eqs conv_defs)
  have h2: "fst (rb_mgc_set_flags lib_present (Fixnum 16) closed) =
              Inl (Magic_exception rb_mgc_eBadAddressError 14 ''library is closed'')"
    by (simp add: method_defs step_eqs conv_defs example_defs closed_def magic_exception_def)
  have h3: "fst (rb_mgc_set_flags lib_rejecting (Fixnum 16) opened) =
              Inl (Magic_exception rb_mgc_eFlagsError 22 ''invalid argument'')"
    by (simp add: method_defs step_eqs conv_defs example_defs lib_rejecting_def magic_exception_def
        magic_generic_error_def)
  have f: "at_flags opened = Fixnum 0" "at_flags closed = Fixnum 0"
    by (simp_all add: example_defs closed_def)
  from set_flags_raise_keeps_flags [OF h1] set_flags_raise_keeps_flags [OF h2]
    set_flags_raise_keeps_flags [OF h3] h1 h2 h3 f
  show ?thesis by simp
qed

section \<open>The search path\<close>

text \<open>
  C10, as the claim has it, fails on a closed object: with a cached list that is
  neither nil nor empty and with \<open>MAGIC\<close> unset, \<open>path\<close> raises and returns no list.
\<close>

theorem path_closed_counterexample:
  "\<not> NIL_P (at_path (closed\<lparr>at_path := RArray [RString ''/etc/magic'']\<rparr>))
   \<and> \<not> RARRAY_EMPTY_P (at_path (closed\<lparr>at_path := RArray [RString ''/etc/magic'']\<rparr>))
   \<and> lib_getenv_MAGIC lib_present = None
   \<and> rb_mgc_get_path lib_present (closed\<lparr>at_path := RArray [RString ''/etc/magic'']\<rparr>) =
       (Inl (Magic_exception rb_mgc_eBadAddressError 14 ''library is closed''),
        closed\<lparr>at_path := RArray [RString ''/etc/magic'']\<rparr>)"
  by (simp add: method_defs step_eqs conv_defs example_defs closed_def magic_exception_def)

text \<open>
  C10, amended. On an open object, \<open>path\<close> returns the cached \<open>@path\<close> and changes
  nothing when that list is not nil, not empty, and \<open>MAGIC\<close> is unset; otherwise it
  asks the library for its default search path, splits it on \<open>":"\<close>, stores the list
  in \<open>@path\<close> and returns it.
\<close>

theorem path_cached_or_recomputed:
  assumes "DATA_PTR s = Some a"
  shows "rb_mgc_get_path x s =
           (if \<not> NIL_P (at_path s) \<and> \<not> RARRAY_EMPTY_P (at_path s) \<and> lib_getenv_MAGIC x = None
            then (Inr (at_path s), s)
            else
              (let v = RArray (map RString (rb_str_split (lib_magic_getpath_wrapper x) CHR '':''))
               in (Inr v,
                   s\<lparr>at_path := v,
                     events := events s @ [Native (Magic_getpath (lib_magic_getpath_wrapper x))]\<rparr>)))"
  using assms
  by (simp add: method_defs step_eqs magic_split_def CSTR2RVAL_def)

theorem path_cached_or_recomputed_witness:
  "DATA_PTR opened = Some 1
   \<and> rb_mgc_get_path lib_present opened =
       (Inr (RArray [RString ''/etc/magic'', RString ''/usr/share/misc/magic'']),
        opened\<lparr>at_path := RArray [RString ''/etc/magic'', RString ''/usr/share/misc/magic''],
               events := events opened @
                 [Native (Magic_getpath ''/etc/magic:/usr/share/misc/magic'')]\<rparr>)
   \<and> rb_mgc_get_path lib_present (opened\<lparr>at_path := RArray [RString ''/etc/magic'']\<rparr>) =
       (Inr (RArray [RString ''/etc/magic'']), opened\<lparr>at_path := RArray [RString ''/etc/magic'']\<rparr>)"
proof -
  have h: "DATA_PTR opened = Some 1"
    "DATA_PTR (opened\<lparr>at_path := RArray [RString ''/etc/magic'']\<rparr>) = Some 1"
    by (simp_all add: opened_def)
  from path_cached_or_recomputed [OF h(1), of lib_present]
    path_cached_or_recomputed [OF h(2), of lib_present] h(1)
  show ?thesis
    by (simp add: lib_present_def opened_def conv_defs rb_str_split_def Let_def)
qed

section \<open>Operations on a closed object\<close>

text \<open>
  C1, as the claim has it, fails for \<open>close\<close>, \<open>closed?\<close> and \<open>version\<close>: on a closed
  object \<open>close\<close> returns nil, \<open>closed?\<close> returns true, and \<open>version\<close>, which does not
  look at the object, returns the number the library gives.
\<close>

theorem closed_object_counterexample:
  "DATA_PTR closed = None
   \<and> Magic_send lib_present M_close closed = (Inr Qnil, closed)
   \<and> Magic_send lib_present M_closed_p closed = (Inr Qtrue, closed)
   \<and> fst (Magic_send lib_present M_version closed) = Inr (Fixnum 514)"
  by (simp add: method_defs step_eqs example_defs closed_def INT2NUM_def)

text \<open>
  C1, amended. Every exposed operation other than \<open>close\<close>, \<open>closed?\<close> and \<open>version\<close>
  (that is \<open>path\<close>, \<open>flags\<close>, \<open>flags=\<close>, \<open>load\<close>, \<open>check\<close>, \<open>compile\<close>, \<open>file\<close>, \<open>buffer\<close>,
  \<open>descriptor\<close>) raises on an object whose cookie has been closed, and leaves the
  object and the log as they were.
\<close>

theorem closed_object_raises:
  assumes "DATA_PTR s = None"
    and "m \<noteq> M_close" and "m \<noteq> M_closed_p" and "m \<noteq> M_version"
  shows "\<exists>e. Magic_send x m s = (Inl e, s)"
  using assms
  by (cases m) (simp_all add: method_defs step_eqs split: sum.split)

theorem closed_object_raises_witness:
  "DATA_PTR closed = None
   \<and> M_load [] \<noteq> M_close \<and> M_load [] \<noteq> M_closed_p \<and> M_load [] \<noteq> M_version
   \<and> (\<exists>e. Magic_send lib_present (M_load []) closed = (Inl e, closed))"
proof -
  have h: "DATA_PTR closed = None"
    by (simp add: example_defs closed_def)
  from closed_object_raises [OF h, of "M_load []" lib_present] h show ?thesis
    by simp
qed

section \<open>Failures of the library\<close>

lemma mutex_cases:
  obtains (unset) "at_mutex s = None" | (held) "at_mutex s = Some True"
  | (free) "at_mutex s = Some False"
  by (cases "at_mutex s") auto

text \<open>An operation logs a call only when the object is open and, for the calls
  under the lock, the mutex free; what it then returns follows from the answer of
  the library.\<close>

lemma failure_file:
  "(case rb_mgc_file x v s of (r, s') \<Rightarrow>
      native_failed (new_events s s') \<longrightarrow> r =
        Inl (Magic_exception rb_mgc_eMagicError
            (case lib_magic_error x (DATA_PTR s) of
               None \<Rightarrow> - 1 | Some msg \<Rightarrow> lib_magic_errno x (DATA_PTR s))
            (case lib_magic_error x (DATA_PTR s) of
               None \<Rightarrow> error x E_UNKNOWN | Some msg \<Rightarrow> msg)))"
  by (cases "DATA_PTR s"; cases rule: mutex_cases [of s];
      simp add: rb_mgc_file_def step_eqs split: sum.split option.split)

lemma failure_descriptor:
  "(case rb_mgc_descriptor x v s of (r, s') \<Rightarrow>
      native_failed (new_events s s') \<longrightarrow> r =
        Inl (Magic_exception rb_mgc_eMagicError
            (case lib_magic_error x (DATA_PTR s) of
               None \<Rightarrow> - 1 | Some msg \<Rightarrow> lib_magic_errno x (DATA_PTR s))
            (case lib_magic_error x (DATA_PTR s) of
               None \<Rightarrow> error x E_UNKNOWN | Some msg \<Rightarrow> msg)))"
  by (cases "DATA_PTR s"; cases rule: mutex_cases [of s];
      simp add: rb_mgc_descriptor_def step_eqs split: sum.split option.split)

lemma failure_buffer:
  "(case rb_mgc_buffer x v s of (r, s') \<Rightarrow>
      native_failed (new_events s s') \<longrightarrow> r =
        Inl (Magic_exception rb_mgc_eMagicError
            (case lib_magic_error x (DATA_PTR s) of
               None \<Rightarrow> - 1 | Some msg \<Rightarrow> lib_magic_errno x (DATA_PTR s))
            (case lib_magic_error x (DATA_PTR s) of
               None \<Rightarrow> error x E_UNKNOWN | Some msg \<Rightarrow> msg)))"
  by (cases "DATA_PTR s";
      simp add: rb_mgc_buffer_def magic_buffer_def step_eqs split: sum.split option.split)

lemma failure_load:
  "(case rb_mgc_load x (RArray args) s of (r, s') \<Rightarrow>
      native_failed (new_events s s') \<longrightarrow> r =
        Inl (Magic_exception rb_mgc_eMagicError
            (case lib_magic_error x (DATA_PTR s) of
               None \<Rightarrow> - 1 | Some msg \<Rightarrow> lib_magic_errno x (DATA_PTR s))
            (case lib_magic_error x (DATA_PTR s) of
               None \<Rightarrow> error x E_UNKNOWN | Some msg \<Rightarrow> msg)))"
  by (cases "DATA_PTR s"; cases rule: mutex_cases [of s]; cases args;
      simp add: rb_mgc_load_def rb_mgc_get_flags_def magic_getpath_wrapper_def step_eqs
        RARRAY_EMPTY_P_def split: sum.split option.split)

lemma failure_compile:
  "(case rb_mgc_compile x (RArray args) s of (r, s') \<Rightarrow>
      native_failed (new_events s s') \<longrightarrow> r =
        Inl (Magic_exception rb_mgc_eMagicError
            (case lib_magic_error x (DATA_PTR s) of
               None \<Rightarrow> - 1 | Some msg \<Rightarrow> lib_magic_errno x (DATA_PTR s))
            (case lib_magic_error x (DATA_PTR s) of
               None \<Rightarrow> error x E_UNKNOWN | Some msg \<Rightarrow> msg)))"
  by (cases "DATA_PTR s"; cases rule: mutex_cases [of s]; cases args;
      simp add: rb_mgc_compile_def rb_mgc_get_flags_def step_eqs RARRAY_EMPTY_P_def
        split: sum.split option.split)

lemma failure_check:
  "(case rb_mgc_check x (RArray args) s of (r, s') \<Rightarrow>
      native_failed (new_events s s') \<longrightarrow> r = Inr Qfalse)"
  by (cases "DATA_PTR s"; cases rule: mutex_cases [of s]; cases args;
      simp add: rb_mgc_check_def rb_mgc_get_flags_def step_eqs RARRAY_EMPTY_P_def
        split: sum.split option.split)

lemma failure_set_flags:
  "\<not> native_failed (new_events s (snd (rb_mgc_set_flags x v s)))"
  by (cases "DATA_PTR s";
      simp add: rb_mgc_set_flags_def magic_setflags_wrapper_def step_eqs
        split: sum.split option.split)

lemma failure_others:
  "\<not> native_failed (new_events s (snd (rb_mgc_close s)))"
  "\<not> native_failed (new_events s (snd (rb_mgc_closed s)))"
  "\<not> native_failed (new_events s (snd (rb_mgc_get_path x s)))"
  "\<not> native_failed (new_events s (snd (rb_mgc_get_flags x s)))"
  "\<not> native_failed (new_events s (snd (rb_mgc_version x s)))"
  by (simp_all add: method_defs step_eqs split: sum.split)

text \<open>
  C2, as the claim has it, fails for \<open>check\<close>, which returns false when the library
  answers with a negative value, and for a failure the library has no message for:
  the exception then carries the number \<open>-1\<close> and the message of the binding for an
  unknown error, whatever number the library holds.
\<close>

theorem library_failure_counterexample:
  "native_failed (new_events opened (snd (Magic_send lib_failing (M_check []) opened)))
   \<and> fst (Magic_send lib_failing (M_check []) opened) = Inr Qfalse
   \<and> native_failed (new_events opened
        (snd (Magic_send lib_silent (M_file (RString ''/nonexistent'')) opened)))
   \<and> lib_magic_errno lib_silent (Some 1) = 2
   \<and> fst (Magic_send lib_silent (M_file (RString ''/nonexistent'')) opened) =
       Inl (Magic_exception rb_mgc_eMagicError (- 1) ''unknown error'')"
  by (simp add: rb_mgc_check_def rb_mgc_file_def rb_mgc_get_flags_def step_eqs conv_defs
      example_defs lib_failing_def lib_silent_def)

text \<open>
  C2, amended. Whenever the call of the library made by \<open>load\<close>, \<open>compile\<close>, \<open>file\<close>,
  \<open>buffer\<close> or \<open>descriptor\<close> answers with a negative value or with the null pointer,
  the operation raises \<open>Magic::MagicError\<close>; the exception carries the number and the
  message the library gives for the cookie when the library has a message, and the
  number \<open>-1\<close> and the message for an unknown error when it has none. \<open>check\<close>
  returns false instead of raising.
\<close>

theorem library_failure_raises:
  assumes "Magic_send x m s = (r, s')"
    and "native_failed (new_events s s')"
  shows "r =
    (case m of
       M_check args \<Rightarrow> Inr Qfalse
     | _ \<Rightarrow>
        Inl (Magic_exception rb_mgc_eMagicError
            (case lib_magic_error x (DATA_PTR s) of
               None \<Rightarrow> - 1 | Some msg \<Rightarrow> lib_magic_errno x (DATA_PTR s))
            (case lib_magic_error x (DATA_PTR s) of
               None \<Rightarrow> error x E_UNKNOWN | Some msg \<Rightarrow> msg)))"
proof (cases m)
  case M_close
  with assms failure_others(1) [where s = s] show ?thesis by simp
next
  case M_closed_p
  with assms failure_others(2) [where s = s] show ?thesis by simp
next
  case M_path
  with assms failure_others(3) [where s = s and x = x] show ?thesis by simp
next
  case M_flags
  with assms failure_others(4) [where s = s and x = x] show ?thesis by simp
next
  case (M_set_flags v)
  with assms failure_set_flags [where s = s and x = x and v = v] show ?thesis by simp
next
  case (M_file v)
  with assms failure_file [where s = s and x = x and v = v] show ?thesis by simp
next
  case (M_buffer v)
  with assms failure_buffer [where s = s and x = x and v = v] show ?thesis by simp
next
  case (M_descriptor v)
  with assms failure_descriptor [where s = s and x = x and v = v] show ?thesis by simp
next
  case (M_load args)
  with assms failure_load [where s = s and x = x and args = args] show ?thesis by simp
next
  case (M_compile args)
  with assms failure_compile [where s = s and x = x and args = args] show ?thesis by simp
next
  case (M_check args)
  with assms failure_check [where s = s and x = x and args = args] show ?thesis by simp
next
  case M_version
  with assms failure_others(5) [where s = s and x = x] show ?thesis by simp
qed

theorem library_failure_raises_witness:
  "Magic_send lib_failing (M_file (RString ''/nonexistent'')) opened =
     (Inl (Magic_exception rb_mgc_eMagicError 2 ''no such file''),
      opened\<lparr>events := events opened @
        [Lock, Native (Magic_file (Some 1) (Some ''/nonexistent'') None), Unlock,
         Native (Magic_error (Some 1) (Some ''no such file'')),
         Native (Magic_errno (Some 1) 2)]\<rparr>)
   \<and> native_failed (new_events opened
        (opened\<lparr>events := events opened @
          [Lock, Native (Magic_file (Some 1) (Some ''/nonexistent'') None), Unlock,
           Native (Magic_error (Some 1) (Some ''no such file'')),
           Native (Magic_errno (Some 1) 2)]\<rparr>))
   \<and> lib_magic_error lib_failing (DATA_PTR opened) = Some ''no such file''
   \<and> lib_magic_errno lib_failing (DATA_PTR opened) = 2"
proof -
  let ?s' = "opened\<lparr>events := events opened @
        [Lock, Native (Magic_file (Some 1) (Some ''/nonexistent'') None), Unlock,
         Native (Magic_error (Some 1) (Some ''no such file'')),
         Native (Magic_errno (Some 1) 2)]\<rparr>"
  have lib: "lib_magic_error lib_failing (DATA_PTR opened) = Some ''no such file''"
    "lib_magic_errno lib_failing (DATA_PTR opened) = 2"
    by (simp_all add: example_defs lib_failing_def)
  have failed: "native_failed (new_events opened ?s')"
    by (simp add: new_events_def)
  obtain r where run: "Magic_send lib_failing (M_file (RString ''/nonexistent'')) opened = (r, ?s')"
    by (simp add: rb_mgc_file_def step_eqs conv_defs example_defs lib_failing_def)
  from library_failure_raises [OF run failed] lib run failed show ?thesis
    by simp
qed

section \<open>The mutex\<close>

text \<open>
  C4. The claim is right and the code falls short of it. \<open>file\<close> takes the mutex of
  the object before its call of the library and gives it back after, and so do
  \<open>descriptor\<close>, \<open>load\<close>, \<open>check\<close> and \<open>compile\<close>; \<open>buffer\<close>, \<open>flags=\<close> and \<open>close\<close> hand the
  same cookie to the library and never take the mutex. On the open object with its
  mutex free, the log of \<open>file\<close> has the call between the lock and the unlock, and
  the logs of \<open>buffer\<close>, \<open>flags=\<close> and \<open>close\<close> have the call alone. On the object whose
  mutex is held, \<open>file\<close> does not reach the library (the one thread of the model gets
  \<open>ThreadError\<close>; a second thread would wait), while \<open>buffer\<close>, \<open>flags=\<close> and \<open>close\<close>
  reach it all the same.
\<close>

theorem cookie_used_without_mutex:
  "at_mutex opened = Some False
   \<and> new_events opened (snd (Magic_send lib_present (M_file (RString ''x'')) opened)) =
       [Lock, Native (Magic_file (Some 1) (Some ''x'') (Some ''ASCII text'')), Unlock]
   \<and> locked_when any_call False
        (new_events opened (snd (Magic_send lib_present (M_file (RString ''x'')) opened)))
   \<and> new_events opened (snd (Magic_send lib_present (M_buffer (RString ''x'')) opened)) =
       [Native (Magic_buffer (Some 1) (Some ''x'') 1 (Some ''data''))]
   \<and> \<not> locked_when any_call False
         (new_events opened (snd (Magic_send lib_present (M_buffer (RString ''x'')) opened)))
   \<and> new_events opened (snd (Magic_send lib_present (M_set_flags (Fixnum 16)) opened)) =
       [Native (Magic_setflags (Some 1) 16 0 0)]
   \<and> \<not> locked_when any_call False
         (new_events opened (snd (Magic_send lib_present (M_set_flags (Fixnum 16)) opened)))
   \<and> new_events opened (snd (Magic_send lib_present M_close opened)) =
       [Native (Magic_close (Some 1))]
   \<and> \<not> locked_when any_call False
         (new_events opened (snd (Magic_send lib_present M_close opened)))
   \<and> at_mutex busy = Some True
   \<and> Magic_send lib_present (M_file (RString ''x'')) busy = (Inl ThreadError, busy)
   \<and> new_events busy (snd (Magic_send lib_present (M_buffer (RString ''x'')) busy)) =
       [Native (Magic_buffer (Some 1) (Some ''x'') 1 (Some ''data''))]
   \<and> new_events busy (snd (Magic_send lib_present (M_set_flags (Fixnum 16)) busy)) =
       [Native (Magic_setflags (Some 1) 16 0 0)]
   \<and> new_events busy (snd (Magic_send lib_present M_close busy)) =
       [Native (Magic_close (Some 1))]"
  by (simp add: method_defs rb_mgc_file_def step_eqs conv_defs example_defs busy_def
      any_call_def)

end
